theory Spec2Isabelle
  imports Complex_Main "HOL-Library.Char_ord" "HOL-Library.List_Lexorder"
begin

text \<open>
  A model of the two record managers of the repository: \<^verbatim>\<open>streamlit_app.py\<close>, which
  keeps the groups in a Google Sheets worksheet, and \<^verbatim>\<open>app.py\<close>, which keeps them in a
  table of a relational database. Each handler of the scripts is a function on the state
  it reads and writes; what the environment decides (whether a connection, a read or a
  write succeeds, whether pandas stores a value assigned to a cell, what the user typed,
  today's date) is an argument. The properties
  proved are those of the record-level protocol: loading and normalising, listing the
  group names, looking a group up, updating and inserting.
\<close>

section \<open>Cells, frames, exceptions\<close>

text \<open>
  Both programs are Streamlit scripts over a pandas \<^verbatim>\<open>DataFrame\<close>. A frame is
  modelled by its ordered column labels and its rows, each row holding one cell per
  column, in column order. The frames of the scripts always carry the default
  \<^verbatim>\<open>RangeIndex\<close> (they come from \<^verbatim>\<open>conn.read\<close>, from \<^verbatim>\<open>df[COLUMNS]\<close> of such
  a frame, or from \<^verbatim>\<open>pd.concat(..., ignore_index=True)\<close>), so that a row label is
  the row's position and no separate index is kept.

  A cell is a Python string, an integer (of an int64 column, or a Python integer of any
  size in a column of objects), a finite float, or the missing value (\<^verbatim>\<open>NaN\<close>,
  \<^verbatim>\<open>NaT\<close>, \<^verbatim>\<open>None\<close>). Strings are lists of the code points 0 to 255. Columns of
  unsigned integers are not modelled.

  Column labels are unique in the frames the scripts handle. Where a label occurs
  twice, a read takes the first column of that label; pandas would return both.
\<close>

datatype cell = Str string | Num int | Flt real | NaN

datatype exn =
    KeyError string
  | ValueError string
  | TypeError
  | IndexError
  | OverflowError
  | BackendError string

record dataframe =
  columns :: "string list"
  rows :: "cell list list"

text \<open>Well-formed frames: unique column labels, every row as long as the header.\<close>

definition wf_frame :: "dataframe \<Rightarrow> bool" where
  "wf_frame df \<longleftrightarrow>
     distinct (columns df) \<and> list_all (\<lambda>r. length r = length (columns df)) (rows df)"

text \<open>The cell of row \<open>r\<close> under label \<open>c\<close>; a label without a cell reads as missing.\<close>

definition cell_of :: "string list \<Rightarrow> cell list \<Rightarrow> string \<Rightarrow> cell" where
  "cell_of cols r c = (case map_of (zip cols r) c of Some v \<Rightarrow> v | None \<Rightarrow> NaN)"

text \<open>\<^verbatim>\<open>df[c]\<close>: the column as a list of cells, \<^verbatim>\<open>KeyError\<close> for an unknown label.\<close>

definition get_column :: "dataframe \<Rightarrow> string \<Rightarrow> exn + cell list" where
  "get_column df c =
     (if c \<in> set (columns df) then Inr (map (\<lambda>r. cell_of (columns df) r c) (rows df))
      else Inl (KeyError c))"

definition put_cell :: "string list \<Rightarrow> cell list \<Rightarrow> string \<Rightarrow> cell \<Rightarrow> cell list" where
  "put_cell cols r c v = map (\<lambda>(k, x). if k = c then v else x) (zip cols r)"

text \<open>
  \<^verbatim>\<open>df[c] = values\<close>: an existing column is overwritten in place, a new label is
  appended as the last column.
\<close>

definition set_column :: "dataframe \<Rightarrow> string \<Rightarrow> cell list \<Rightarrow> dataframe" where
  "set_column df c vs =
     (if c \<in> set (columns df)
      then df\<lparr>rows := map (\<lambda>(r, v). put_cell (columns df) r c v) (zip (rows df) vs)\<rparr>
      else df\<lparr>columns := columns df @ [c],
              rows := map (\<lambda>(r, v). r @ [v]) (zip (rows df) vs)\<rparr>)"

text \<open>\<^verbatim>\<open>df[c] = scalar\<close> broadcasts the scalar over all rows.\<close>

definition set_column_scalar :: "dataframe \<Rightarrow> string \<Rightarrow> cell \<Rightarrow> dataframe" where
  "set_column_scalar df c v = set_column df c (replicate (length (rows df)) v)"

text \<open>\<^verbatim>\<open>df[labels]\<close>: the listed columns in the listed order.\<close>

definition select_columns :: "dataframe \<Rightarrow> string list \<Rightarrow> exn + dataframe" where
  "select_columns df cs =
     (case filter (\<lambda>c. c \<notin> set (columns df)) cs of
        [] \<Rightarrow> Inr \<lparr>columns = cs, rows = map (\<lambda>r. map (cell_of (columns df) r) cs) (rows df)\<rparr>
      | c # _ \<Rightarrow> Inl (KeyError c))"

text \<open>\<^verbatim>\<open>pd.DataFrame(columns=cs)\<close>: the frame with header \<open>cs\<close> and no rows.\<close>

definition empty_frame :: "string list \<Rightarrow> dataframe" where
  "empty_frame cs = \<lparr>columns = cs, rows = []\<rparr>"

section \<open>Strings, integers and dates of the Python library\<close>

text \<open>\<^verbatim>\<open>str.isspace\<close> on the code points 0 to 255, and \<^verbatim>\<open>str.strip()\<close>.\<close>

definition isspace :: "char \<Rightarrow> bool" where
  "isspace c \<longleftrightarrow>
     c \<in> set [CHR 0x09, CHR 0x0A, CHR 0x0B, CHR 0x0C, CHR 0x0D, CHR 0x1C, CHR 0x1D,
              CHR 0x1E, CHR 0x1F, CHR 0x20, CHR 0x85, CHR 0xA0]"

definition strip :: "string \<Rightarrow> string" where
  "strip s = rev (dropWhile isspace (rev (dropWhile isspace s)))"

definition isdigit :: "char \<Rightarrow> bool" where
  "isdigit c \<longleftrightarrow> c \<in> set ''0123456789''"

definition digit_value :: "char \<Rightarrow> nat" where
  "digit_value c = length (takeWhile (\<lambda>d. d \<noteq> c) ''0123456789'')"

text \<open>
  \<^verbatim>\<open>int(s)\<close> in base 10: surrounding whitespace is dropped, one sign is allowed, and
  the digits may be grouped by single underscores. The whitespace \<^verbatim>\<open>int\<close> drops is
  not that of \<^verbatim>\<open>str.strip\<close>: the separators \<^verbatim>\<open>0x1C\<close> to \<^verbatim>\<open>0x1F\<close> are not dropped
  and make the literal invalid. A literal of more than 4300 digits is refused (the
  default limit of CPython). \<open>None\<close> stands for the \<^verbatim>\<open>ValueError\<close> of a literal
  that is refused.
\<close>

definition int_space :: "char \<Rightarrow> bool" where
  "int_space c \<longleftrightarrow>
     c \<in> set [CHR 0x09, CHR 0x0A, CHR 0x0B, CHR 0x0C, CHR 0x0D, CHR 0x20, CHR 0x85, CHR 0xA0]"

definition int_strip :: "string \<Rightarrow> string" where
  "int_strip s = rev (dropWhile int_space (rev (dropWhile int_space s)))"

fun grouped_digits :: "string \<Rightarrow> bool" where
  "grouped_digits [] = False"
| "grouped_digits [c] = isdigit c"
| "grouped_digits (c # d # cs) =
     (isdigit c \<and> (if d = CHR ''_'' then grouped_digits cs else grouped_digits (d # cs)))"

definition digits_value :: "string \<Rightarrow> nat" where
  "digits_value ds = foldl (\<lambda>n c. 10 * n + digit_value c) 0 (filter isdigit ds)"

definition literal :: "string \<Rightarrow> bool" where
  "literal ds \<longleftrightarrow> grouped_digits ds \<and> length (filter isdigit ds) \<le> 4300"

definition py_int :: "string \<Rightarrow> int option" where
  "py_int s =
     (case int_strip s of
        [] \<Rightarrow> None
      | c # cs \<Rightarrow>
          if c = CHR ''-'' then (if literal cs then Some (- int (digits_value cs)) else None)
          else if c = CHR ''+'' then (if literal cs then Some (int (digits_value cs)) else None)
          else (if literal (c # cs) then Some (int (digits_value (c # cs))) else None))"

text \<open>The integers of an int64 column.\<close>

definition int64 :: "int \<Rightarrow> bool" where
  "int64 i \<longleftrightarrow> - 9223372036854775808 \<le> i \<and> i \<le> 9223372036854775807"

text \<open>\<^verbatim>\<open>int(x)\<close> of a float truncates towards zero.\<close>

definition trunc :: "real \<Rightarrow> int" where
  "trunc x = (if 0 \<le> x then \<lfloor>x\<rfloor> else \<lceil>x\<rceil>)"

text \<open>
  A calendar date: \<^verbatim>\<open>datetime.date\<close> and the date part of a pandas timestamp. The
  libraries keep the year within four digits and month and day within two, and
  \<^verbatim>\<open>strftime('%Y-%m-%d')\<close> prints them zero-padded to these widths.
\<close>

record date =
  year :: nat
  month :: nat
  day :: nat

definition digit_char :: "nat \<Rightarrow> char" where
  "digit_char k = ''0123456789'' ! (k mod 10)"

definition strftime :: "date \<Rightarrow> string" where
  "strftime d =
     [digit_char (year d div 1000), digit_char (year d div 100), digit_char (year d div 10),
      digit_char (year d), CHR ''-'',
      digit_char (month d div 10), digit_char (month d), CHR ''-'',
      digit_char (day d div 10), digit_char (day d)]"


section \<open>The spreadsheet variant: \<^verbatim>\<open>streamlit_app.py\<close>\<close>

definition COLUMNS :: "string list" where
  "COLUMNS =
     [''Group_Association'', ''President_Name'', ''President_Email'', ''President_Contact'',
      ''Secretary_Name'', ''Secretary_Email'', ''Secretary_Contact'', ''Treasurer_Name'',
      ''Treasurer_Email'', ''Treasurer_Contact'', ''Last_Fee_Paid_Year'', ''Web_Data_Updated'']"

text \<open>
  What a script run does towards the user: the messages it shows (\<^verbatim>\<open>st.error\<close>,
  \<^verbatim>\<open>st.exception\<close>, \<^verbatim>\<open>st.success\<close>, \<^verbatim>\<open>st.warning\<close>, \<^verbatim>\<open>st.info\<close>,
  \<^verbatim>\<open>st.balloons\<close>) and \<^verbatim>\<open>st.rerun()\<close>, which ends the run and starts the script anew
  with the session state kept.
\<close>

datatype ui =
    ErrorConnecting
  | ShowException exn
  | ErrorWriting
  | ErrorNameRequired
  | ErrorAlreadyExists string
  | SuccessAdded string
  | Balloons
  | SuccessUpdated string string
  | ErrorPreparing exn
  | WarningNoData
  | InfoSelect
  | Rerun

subsection \<open>\<^verbatim>\<open>load_data\<close>\<close>

text \<open>
  \<^verbatim>\<open>.fillna(0)\<close> and \<^verbatim>\<open>.astype(int)\<close> on a column. A column whose cells are floats
  or missing is a float64 column, and the zero filled in is a float; any other column
  that reaches the conversion with a string, a float or an integer beyond int64 in it
  is a column of Python objects. The target type is int64:
  \<^item> an object is converted by \<^verbatim>\<open>int\<close>, and a result beyond int64 raises
    \<^verbatim>\<open>OverflowError\<close>;
  \<^item> a float of a float64 column is truncated, and beyond int64 the cast yields the
    least int64 without an error.
\<close>

definition float_column :: "cell list \<Rightarrow> bool" where
  "float_column xs = list_all (\<lambda>x. case x of Flt y \<Rightarrow> True | NaN \<Rightarrow> True | _ \<Rightarrow> False) xs"

definition fillna0 :: "cell list \<Rightarrow> cell list" where
  "fillna0 xs = map (\<lambda>x. if x = NaN then (if float_column xs then Flt 0 else Num 0) else x) xs"

fun int_of_cell :: "bool \<Rightarrow> cell \<Rightarrow> exn + int" where
  "int_of_cell fl (Num i) = (if int64 i then Inr i else Inl OverflowError)"
| "int_of_cell fl (Flt x) =
     (if int64 (trunc x) then Inr (trunc x)
      else if fl then Inr (- 9223372036854775808)
      else Inl OverflowError)"
| "int_of_cell fl (Str s) =
     (case py_int s of
        None \<Rightarrow> Inl (ValueError s)
      | Some i \<Rightarrow> if int64 i then Inr i else Inl OverflowError)"
| "int_of_cell fl NaN = Inl (ValueError ''NA'')"

fun cast_all :: "bool \<Rightarrow> cell list \<Rightarrow> exn + int list" where
  "cast_all fl [] = Inr []"
| "cast_all fl (x # xs) =
     (case int_of_cell fl x of
        Inl e \<Rightarrow> Inl e
      | Inr i \<Rightarrow> (case cast_all fl xs of Inl e \<Rightarrow> Inl e | Inr is \<Rightarrow> Inr (i # is)))"

definition astype_int :: "cell list \<Rightarrow> exn + int list" where
  "astype_int xs = cast_all (float_column xs) xs"

text \<open>
  \<^verbatim>\<open>pd.to_datetime(col, errors='coerce').dt.strftime('%Y-%m-%d')\<close>. Which cells
  pandas reads as a date is the library's business (it infers a format from the
  column), so the parser is a parameter: \<open>parse col x\<close> is the date read from cell
  \<open>x\<close> of column \<open>col\<close>, \<open>None\<close> where \<^verbatim>\<open>errors='coerce'\<close> gives \<^verbatim>\<open>NaT\<close>. The
  formatted column holds the string of a date and the missing value for \<^verbatim>\<open>NaT\<close>.
\<close>

type_synonym parser = "cell list \<Rightarrow> cell \<Rightarrow> date option"

definition to_date_strings :: "parser \<Rightarrow> cell list \<Rightarrow> cell list" where
  "to_date_strings parse col =
     map (\<lambda>x. case parse col x of None \<Rightarrow> NaN | Some d \<Rightarrow> Str (strftime d)) col"

text \<open>The loop \<^verbatim>\<open>for col in COLUMNS: if col not in df.columns: df[col] = ''\<close>.\<close>

definition fill_missing :: "string list \<Rightarrow> dataframe \<Rightarrow> dataframe" where
  "fill_missing cs df =
     foldl (\<lambda>d col. if col \<notin> set (columns d) then set_column_scalar d col (Str []) else d) df cs"

text \<open>
  The body of the \<^verbatim>\<open>try\<close> block. Its argument is the outcome of
  \<^verbatim>\<open>st.connection\<close> followed by \<^verbatim>\<open>conn.read\<close>: the frame read, or the exception
  either call raised.
\<close>

definition load_data_try :: "parser \<Rightarrow> exn + dataframe \<Rightarrow> exn + dataframe" where
  "load_data_try parse rd =
     (case rd of
        Inl e \<Rightarrow> Inl e
      | Inr df \<Rightarrow>
         (case get_column df ''Last_Fee_Paid_Year'' of
            Inl e \<Rightarrow> Inl e
          | Inr ycol \<Rightarrow>
             (case astype_int (fillna0 ycol) of
                Inl e \<Rightarrow> Inl e
              | Inr ys \<Rightarrow>
                 (let df1 = set_column df ''Last_Fee_Paid_Year'' (map Num ys) in
                  case get_column df1 ''Web_Data_Updated'' of
                    Inl e \<Rightarrow> Inl e
                  | Inr dcol \<Rightarrow>
                     (let df2 = set_column df1 ''Web_Data_Updated'' (to_date_strings parse dcol)
                      in select_columns (fill_missing COLUMNS df2) COLUMNS)))))"

text \<open>
  \<^verbatim>\<open>load_data\<close>: the messages shown and the frame returned. The \<^verbatim>\<open>except\<close>
  branch shows the error and the exception and returns the empty frame. (The decorator
  \<^verbatim>\<open>st.cache_data\<close> hands out the frame of an earlier call for ten minutes; what it
  hands out is a frame this function returned.)
\<close>

definition load_data :: "parser \<Rightarrow> exn + dataframe \<Rightarrow> ui list \<times> dataframe" where
  "load_data parse rd =
     (case load_data_try parse rd of
        Inr df \<Rightarrow> ([], df)
      | Inl e \<Rightarrow> ([ErrorConnecting, ShowException e], empty_frame COLUMNS))"

subsection \<open>The session and \<^verbatim>\<open>write_data\<close>\<close>

text \<open>
  The state a script run works on: the frame kept in \<^verbatim>\<open>st.session_state.df_orgaco\<close>,
  the worksheet behind the connection, the entry of \<^verbatim>\<open>load_data\<close> in Streamlit's
  data cache (filled by the call at the session start, emptied by \<^verbatim>\<open>load_data.clear()\<close>),
  and what has been shown so far. The cache entry's expiry after 600 seconds is a matter
  of wall-clock time and is not modelled.
\<close>

record session =
  df_orgaco :: dataframe
  sheet :: dataframe
  cache :: "dataframe option"
  events :: "ui list"

text \<open>
  \<^verbatim>\<open>write_data\<close>. Its first argument is the outcome of \<^verbatim>\<open>st.connection\<close> followed
  by \<^verbatim>\<open>conn.write\<close>: \<open>None\<close> when both return, the exception when one raises.
  A write that returns has replaced the worksheet's content by the frame.
\<close>

definition write_data :: "exn option \<Rightarrow> session \<Rightarrow> dataframe \<Rightarrow> session \<times> bool" where
  "write_data wr s df_to_write =
     (case wr of
        None \<Rightarrow> (s\<lparr>sheet := df_to_write\<rparr>, True)
      | Some e \<Rightarrow> (s\<lparr>events := events s @ [ErrorWriting, ShowException e]\<rparr>, False))"

text \<open>The group column of a frame that has one.\<close>

definition group_names :: "dataframe \<Rightarrow> cell list" where
  "group_names df = map (\<lambda>r. cell_of (columns df) r ''Group_Association'') (rows df)"

subsection \<open>Tab 2: add a new group\<close>

text \<open>The values of the form's widgets when the script runs.\<close>

record new_group_form =
  new_group_name :: string
  p_name :: string
  p_email :: string
  p_contact :: string
  s_name :: string
  s_email :: string
  s_contact :: string
  t_name :: string
  t_email :: string
  t_contact :: string
  fee_year :: int
  submitted :: bool

text \<open>The dictionary \<^verbatim>\<open>new_data\<close>, as the list of its items.\<close>

definition new_data :: "date \<Rightarrow> new_group_form \<Rightarrow> (string \<times> cell) list" where
  "new_data today f =
     [(''Group_Association'', Str (new_group_name f)),
      (''President_Name'', Str (p_name f)),
      (''President_Email'', Str (p_email f)),
      (''President_Contact'', Str (p_contact f)),
      (''Secretary_Name'', Str (s_name f)),
      (''Secretary_Email'', Str (s_email f)),
      (''Secretary_Contact'', Str (s_contact f)),
      (''Treasurer_Name'', Str (t_name f)),
      (''Treasurer_Email'', Str (t_email f)),
      (''Treasurer_Contact'', Str (t_contact f)),
      (''Last_Fee_Paid_Year'', Num (fee_year f)),
      (''Web_Data_Updated'', Str (strftime today))]"

text \<open>\<^verbatim>\<open>pd.DataFrame(records, columns=cs)\<close>: one row per dictionary, a missing key reads as missing.\<close>

definition frame_of_records :: "(string \<times> cell) list list \<Rightarrow> string list \<Rightarrow> dataframe" where
  "frame_of_records recs cs =
     \<lparr>columns = cs,
      rows = map (\<lambda>d. map (\<lambda>c. case map_of d c of Some v \<Rightarrow> v | None \<Rightarrow> NaN) cs) recs\<rparr>"

text \<open>
  \<^verbatim>\<open>pd.concat([a, b], ignore_index=True)\<close>: the columns of \<open>a\<close> followed by the new
  ones of \<open>b\<close>, the rows of \<open>a\<close> followed by those of \<open>b\<close>, each reindexed to these
  columns.
\<close>

definition concat_frames :: "dataframe \<Rightarrow> dataframe \<Rightarrow> dataframe" where
  "concat_frames a b =
     (let cs = columns a @ filter (\<lambda>c. c \<notin> set (columns a)) (columns b) in
      \<lparr>columns = cs,
       rows = map (\<lambda>r. map (cell_of (columns a) r) cs) (rows a) @
              map (\<lambda>r. map (cell_of (columns b) r) cs) (rows b)\<rparr>)"

text \<open>
  The handler under \<^verbatim>\<open>if submitted:\<close>. An exception outside a \<^verbatim>\<open>try\<close> ends the
  script run (\<open>Inl\<close>).
\<close>

definition add_new_group_tab ::
  "exn option \<Rightarrow> date \<Rightarrow> new_group_form \<Rightarrow> session \<Rightarrow> exn + session" where
  "add_new_group_tab wr today f s =
     (if \<not> submitted f then Inr s
      else if new_group_name f = [] then Inr (s\<lparr>events := events s @ [ErrorNameRequired]\<rparr>)
      else
        (case get_column (df_orgaco s) ''Group_Association'' of
           Inl e \<Rightarrow> Inl e
         | Inr names \<Rightarrow>
             if Str (new_group_name f) \<in> set names
             then Inr (s\<lparr>events := events s @ [ErrorAlreadyExists (new_group_name f)]\<rparr>)
             else
               (let new_df_row = frame_of_records [new_data today f] COLUMNS;
                    s1 = s\<lparr>df_orgaco := concat_frames (df_orgaco s) new_df_row\<rparr>
                in case write_data wr s1 (df_orgaco s1) of
                     (s2, True) \<Rightarrow>
                       Inr (s2\<lparr>cache := None,
                               events := events s2 @ [SuccessAdded (new_group_name f), Balloons, Rerun]\<rparr>)
                   | (s2, False) \<Rightarrow> Inr s2)))"

subsection \<open>Tab 1: search and update\<close>

text \<open>
  \<^verbatim>\<open>Series.sort_values()\<close>: missing values go last; strings are ordered by code
  point, numbers by value; comparing a string with a number raises \<^verbatim>\<open>TypeError\<close>.
\<close>

definition is_str :: "cell \<Rightarrow> bool" where
  "is_str x = (case x of Str s \<Rightarrow> True | _ \<Rightarrow> False)"

definition is_number :: "cell \<Rightarrow> bool" where
  "is_number x = (case x of Num i \<Rightarrow> True | Flt y \<Rightarrow> True | _ \<Rightarrow> False)"

definition str_of :: "cell \<Rightarrow> string" where
  "str_of x = (case x of Str s \<Rightarrow> s | _ \<Rightarrow> [])"

definition number_of :: "cell \<Rightarrow> real" where
  "number_of x = (case x of Num i \<Rightarrow> real_of_int i | Flt y \<Rightarrow> y | _ \<Rightarrow> 0)"

definition sort_values :: "cell list \<Rightarrow> exn + cell list" where
  "sort_values xs =
     (let vals = filter (\<lambda>x. x \<noteq> NaN) xs; nans = filter (\<lambda>x. x = NaN) xs in
      if list_all is_str vals then Inr (map Str (sort (map str_of vals)) @ nans)
      else if list_all is_number vals then Inr (sort_key number_of vals @ nans)
      else Inl TypeError)"

text \<open>\<^verbatim>\<open>Series.unique()\<close>: the first occurrence of every value, in order of appearance.\<close>

definition same_value :: "cell \<Rightarrow> cell \<Rightarrow> bool" where
  "same_value x y \<longleftrightarrow> x = y \<or> (is_number x \<and> is_number y \<and> number_of x = number_of y)"

fun unique :: "cell list \<Rightarrow> cell list" where
  "unique [] = []"
| "unique (x # xs) = x # filter (\<lambda>y. \<not> same_value x y) (unique xs)"

text \<open>\<^verbatim>\<open>df['Group_Association'].sort_values().unique().tolist()\<close>.\<close>

definition group_options :: "dataframe \<Rightarrow> exn + cell list" where
  "group_options df =
     (case get_column df ''Group_Association'' of
        Inl e \<Rightarrow> Inl e
      | Inr col \<Rightarrow> (case sort_values col of Inl e \<Rightarrow> Inl e | Inr ys \<Rightarrow> Inr (unique ys)))"

text \<open>\<^verbatim>\<open>df[df['Group_Association'] == name]\<close>: the rows whose group cell is the string \<open>name\<close>.\<close>

definition selected_rows :: "dataframe \<Rightarrow> string \<Rightarrow> exn + dataframe" where
  "selected_rows df name =
     (case get_column df ''Group_Association'' of
        Inl e \<Rightarrow> Inl e
      | Inr col \<Rightarrow>
          Inr (df\<lparr>rows := map fst (filter (\<lambda>(r, g). g = Str name) (zip (rows df) col))\<rparr>))"














section \<open>The relational variant: \<^verbatim>\<open>app.py\<close>\<close>

text \<open>
  The table is a frame as well. The database records the statements it was sent. What
  the server does with a statement is not the script's: \<open>conn\<close> below is the outcome of
  opening the connection and executing (\<open>None\<close>: executed, and committed where the script
  commits; \<open>Some e\<close>: the exception raised), \<open>order_by\<close> is the server's \<^verbatim>\<open>ORDER BY\<close>
  on a column of values (its collation), and \<open>dflt c\<close> is the value the server stores
  in column \<open>c\<close> of an inserted row that gives no value for it (a default, a serial
  number, \<^verbatim>\<open>NULL\<close>).
\<close>

datatype sql =
    SelectDistinctGroups
  | InsertGroup string

record database =
  tbl :: dataframe
  statements :: "sql list"

datatype notice =
    SuccessAddedGroup string
  | ErrorAddingGroup exn
  | WarningEnterName
  | ExperimentalRerun

record app =
  db :: database
  shown :: "notice list"

text \<open>
  \<^verbatim>\<open>fetch_group_associations\<close>:
  \<^verbatim>\<open>SELECT DISTINCT "Group_Association" FROM ... ORDER BY "Group_Association"\<close>, sent on
  every call. The function has no \<^verbatim>\<open>try\<close>: an exception leaves it.
\<close>

definition fetch_group_associations ::
  "(cell list \<Rightarrow> cell list) \<Rightarrow> exn option \<Rightarrow> database \<Rightarrow> exn + database \<times> cell list" where
  "fetch_group_associations order_by conn d =
     (case conn of
        Some e \<Rightarrow> Inl e
      | None \<Rightarrow>
          (case get_column (tbl d) ''Group_Association'' of
             Inl e \<Rightarrow> Inl e
           | Inr col \<Rightarrow>
               Inr (d\<lparr>statements := statements d @ [SelectDistinctGroups]\<rparr>,
                    order_by (remdups col))))"

text \<open>
  \<^verbatim>\<open>INSERT INTO ... ("Group_Association") VALUES (:new_group)\<close>, executed and
  committed: one more row, the group column holding the value sent.
\<close>

definition insert_group :: "(string \<Rightarrow> cell) \<Rightarrow> string \<Rightarrow> database \<Rightarrow> database" where
  "insert_group dflt new_group d =
     d\<lparr>tbl := (tbl d)\<lparr>rows := rows (tbl d) @
                 [map (\<lambda>c. if c = ''Group_Association'' then Str new_group else dflt c)
                    (columns (tbl d))]\<rparr>,
       statements := statements d @ [InsertGroup new_group]\<rparr>"

text \<open>\<^verbatim>\<open>add_new_group\<close>: no look at the table precedes the insert.\<close>

definition add_new_group :: "(string \<Rightarrow> cell) \<Rightarrow> exn option \<Rightarrow> string \<Rightarrow> app \<Rightarrow> app" where
  "add_new_group dflt conn new_group a =
     (case conn of
        None \<Rightarrow>
          a\<lparr>db := insert_group dflt new_group (db a),
            shown := shown a @ [SuccessAddedGroup new_group, ExperimentalRerun]\<rparr>
      | Some e \<Rightarrow> a\<lparr>shown := shown a @ [ErrorAddingGroup e]\<rparr>)"

text \<open>The form \<^verbatim>\<open>new_group_form\<close> of \<^verbatim>\<open>app.py\<close>.\<close>

definition new_group_handler ::
  "(string \<Rightarrow> cell) \<Rightarrow> exn option \<Rightarrow> bool \<Rightarrow> string \<Rightarrow> app \<Rightarrow> app" where
  "new_group_handler dflt conn is_submitted new_group_input a =
     (if is_submitted \<and> new_group_input \<noteq> [] then add_new_group dflt conn (strip new_group_input) a
      else if is_submitted \<and> new_group_input = [] then a\<lparr>shown := shown a @ [WarningEnterName]\<rparr>
      else a)"

section \<open>The specification's reading of trimming\<close>

text \<open>
  \<open>t\<close> is \<open>s\<close> without its leading and trailing whitespace: \<open>s\<close> is \<open>t\<close> between two
  runs of whitespace, and \<open>t\<close> neither begins nor ends with whitespace.
\<close>

definition trimmed :: "string \<Rightarrow> string \<Rightarrow> bool" where
  "trimmed s t \<longleftrightarrow>
     (\<exists>l r. s = l @ t @ r \<and> list_all isspace l \<and> list_all isspace r) \<and>
     (case t of [] \<Rightarrow> True | c # cs \<Rightarrow> \<not> isspace c \<and> \<not> isspace (last (c # cs)))"

section \<open>The specification's reading of \<^verbatim>\<open>load\<close>\<close>








text \<open>The frame read has unique column labels (an exception has none).\<close>

definition unique_labels :: "exn + dataframe \<Rightarrow> bool" where
  "unique_labels rd = (case rd of Inl e \<Rightarrow> True | Inr raw \<Rightarrow> distinct (columns raw))"

section \<open>Sample inputs\<close>

text \<open>A parser that reads two spellings of a date and nothing else.\<close>

definition sample_parse :: parser where
  "sample_parse col x =
     (if x = Str ''2024-01-05'' then Some \<lparr>year = 2024, month = 1, day = 5\<rparr>
      else if x = Str ''5 March 2023'' then Some \<lparr>year = 2023, month = 3, day = 5\<rparr>
      else None)"



text \<open>
  A sheet without the contact columns and with one column more; years as a float, as a
  string and missing; one date pandas cannot read.
\<close>

definition raw_sheet :: dataframe where
  "raw_sheet =
     \<lparr>columns = [''Group_Association'', ''Notes'', ''Last_Fee_Paid_Year'', ''Web_Data_Updated''],
      rows = [[Str ''Lions Club'', Str ''x'', Flt 2023, Str ''5 March 2023''],
              [Str ''Rotary'', NaN, Str '' 2021 '', Str ''soon''],
              [Str ''Leo Club'', NaN, NaN, NaN]]\<rparr>"

text \<open>A session with one group, loaded from and equal to the worksheet.\<close>

definition lions_row :: "cell list" where
  "lions_row =
     [Str ''Lions Club'', Str ''Ann'', Str ''ann@lions.org'', Str ''555-0100'',
      Str ''Bo'', Str ''bo@lions.org'', Str ''555-0101'',
      Str ''Cy'', Str ''cy@lions.org'', Str ''555-0102'', Num 2023, Str ''2024-01-05'']"

definition lions_frame :: dataframe where
  "lions_frame = \<lparr>columns = COLUMNS, rows = [lions_row]\<rparr>"

definition lions_session :: session where
  "lions_session =
     \<lparr>df_orgaco = lions_frame, sheet = lions_frame, cache = Some lions_frame, events = []\<rparr>"

definition sample_today :: date where
  "sample_today = \<lparr>year = 2026, month = 11, day = 3\<rparr>"

definition rotary_form :: new_group_form where
  "rotary_form =
     \<lparr>new_group_name = ''Rotary'', p_name = ''Raj'', p_email = ''raj@rotary.org'',
      p_contact = ''555-0200'', s_name = ''Sue'', s_email = ''sue@rotary.org'',
      s_contact = ''555-0201'', t_name = ''Tom'', t_email = ''tom@rotary.org'',
      t_contact = ''555-0202'', fee_year = 2026, submitted = True\<rparr>"

definition rotary_row :: "cell list" where
  "rotary_row =
     [Str ''Rotary'', Str ''Raj'', Str ''raj@rotary.org'', Str ''555-0200'',
      Str ''Sue'', Str ''sue@rotary.org'', Str ''555-0201'',
      Str ''Tom'', Str ''tom@rotary.org'', Str ''555-0202'', Num 2026, Str ''2026-11-03'']"

definition lions_again_form :: new_group_form where
  "lions_again_form = rotary_form\<lparr>new_group_name := ''Lions Club''\<rparr>"

text \<open>A table of the relational variant, and the values its server fills in.\<close>

definition rotary_table :: dataframe where
  "rotary_table =
     \<lparr>columns = [''id'', ''Group_Association'', ''President_Name''],
      rows = [[Num 1, Str ''Rotary'', Str ''Raj'']]\<rparr>"

definition rotary_app :: app where
  "rotary_app = \<lparr>db = \<lparr>tbl = rotary_table, statements = []\<rparr>, shown = []\<rparr>"

definition sample_defaults :: "string \<Rightarrow> cell" where
  "sample_defaults c = (if c = ''id'' then Num 2 else NaN)"

definition sample_order :: "cell list \<Rightarrow> cell list" where
  "sample_order xs = map Str (sort (map str_of xs))"








text \<open>A session with two groups.\<close>

definition two_groups_session :: session where
  "two_groups_session =
     \<lparr>df_orgaco = \<lparr>columns = COLUMNS, rows = [rotary_row, lions_row]\<rparr>,
      sheet = \<lparr>columns = COLUMNS, rows = [rotary_row, lions_row]\<rparr>,
      cache = None, events = []\<rparr>"

definition lions_app :: app where
  "lions_app =
     \<lparr>db = \<lparr>tbl = \<lparr>columns = [''id'', ''Group_Association'', ''President_Name''],
                    rows = [[Num 1, Str ''Lions Club'', Str ''Ann'']]\<rparr>,
            statements = []\<rparr>,
      shown = []\<rparr>"

section \<open>Frames: helper lemmas\<close>









lemma select_columns_columns:
  "select_columns df cs = Inr out \<Longrightarrow> columns out = cs"
  by (auto simp: select_columns_def split: list.splits)

lemma select_columns_rows:
  "select_columns df cs = Inr out \<Longrightarrow> list_all (\<lambda>r. length r = length cs) (rows out)"
  by (auto simp: select_columns_def list_all_iff split: list.splits)




lemma cell_of_map_labels: "c \<in> set cs \<Longrightarrow> cell_of cs (map f cs) c = f c"
  by (simp add: cell_of_def map_of_zip_map)

section \<open>Dates and integers: helper lemmas\<close>







section \<open>\<^verbatim>\<open>load_data\<close>\<close>






lemma load_data_try_columns:
  "load_data_try parse rd = Inr out \<Longrightarrow> columns out = COLUMNS"
  by (auto simp: load_data_try_def Let_def select_columns_columns split: sum.splits)

lemma load_data_try_rows:
  "load_data_try parse rd = Inr out \<Longrightarrow>
     list_all (\<lambda>r. length r = length COLUMNS) (rows out)"
  by (auto simp: load_data_try_def Let_def select_columns_rows split: sum.splits)


text \<open>
  Claim C5. When the connection cannot be established or the read call raises
  (the outcome of the two calls is an exception \<open>e\<close>), \<^verbatim>\<open>load_data\<close> does not
  raise: it shows the connection error together with the exception and returns the frame
  that has the twelve columns and no rows.
\<close>

theorem load_data_backend_failure:
  "load_data parse (Inl e) =
     ([ErrorConnecting, ShowException e], \<lparr>columns = COLUMNS, rows = []\<rparr>)"
  by (simp add: load_data_def load_data_try_def empty_frame_def)

text \<open>
  Claim C8. Whatever the read call delivers, a frame (of unique labels) of any shape or
  an exception, the frame \<^verbatim>\<open>load_data\<close> returns has exactly the twelve columns of
  \<^verbatim>\<open>COLUMNS\<close> in their declared order, and each of its rows has twelve cells.
\<close>

theorem load_data_shape:
  assumes "unique_labels rd"
  shows "columns (snd (load_data parse rd)) = COLUMNS \<and>
         length COLUMNS = 12 \<and>
         list_all (\<lambda>r. length r = 12) (rows (snd (load_data parse rd)))"
proof (cases "load_data_try parse rd")
  case (Inl e)
  then show ?thesis
    by (simp add: load_data_def empty_frame_def COLUMNS_def)
next
  case (Inr out)
  have len: "length COLUMNS = 12"
    by (simp add: COLUMNS_def)
  from Inr load_data_try_columns [of parse rd out] load_data_try_rows [of parse rd out]
  show ?thesis
    by (simp add: load_data_def len)
qed

theorem load_data_shape_witness:
  "unique_labels (Inr raw_sheet) \<and>
   columns (snd (load_data sample_parse (Inr raw_sheet))) = COLUMNS \<and>
   list_all (\<lambda>r. length r = 12) (rows (snd (load_data sample_parse (Inr raw_sheet)))) \<and>
   unique_labels (Inl (BackendError ''no credentials'')) \<and>
   columns (snd (load_data sample_parse (Inl (BackendError ''no credentials'')))) = COLUMNS \<and>
   list_all (\<lambda>r. length r = 12)
     (rows (snd (load_data sample_parse (Inl (BackendError ''no credentials'')))))"
proof -
  have a: "unique_labels (Inr raw_sheet)"
    by (simp add: unique_labels_def raw_sheet_def)
  have b: "unique_labels (Inl (BackendError ''no credentials''))"
    by (simp add: unique_labels_def)
  from load_data_shape [OF a, of sample_parse] load_data_shape [OF b, of sample_parse] a b
  show ?thesis by simp
qed




section \<open>Tab 2 of the spreadsheet variant\<close>

lemma reindex_same:
  assumes "distinct cols" and "length r = length cols"
  shows "map (cell_of cols r) cols = r"
proof (rule nth_equalityI)
  show "length (map (cell_of cols r) cols) = length r"
    using assms by simp
next
  fix i assume "i < length (map (cell_of cols r) cols)"
  then have i: "i < length cols" by simp
  with assms have "map_of (zip cols r) (cols ! i) = Some (r ! i)"
    by (simp add: map_of_zip_nth)
  with i show "map (cell_of cols r) cols ! i = r ! i"
    by (simp add: cell_of_def)
qed

lemma concat_frames_same_columns:
  assumes a: "wf_frame a" and b: "wf_frame b" and c: "columns b = columns a"
  shows "concat_frames a b = \<lparr>columns = columns a, rows = rows a @ rows b\<rparr>"
proof -
  have f: "filter (\<lambda>c. c \<notin> set (columns a)) (columns b) = []"
    by (simp add: c)
  from a have "map (\<lambda>r. map (cell_of (columns a) r) (columns a)) (rows a) = rows a"
    by (intro map_idI) (simp add: wf_frame_def list_all_iff reindex_same)
  moreover from b c have "map (\<lambda>r. map (cell_of (columns a) r) (columns a)) (rows b) = rows b"
    by (intro map_idI) (simp add: wf_frame_def list_all_iff reindex_same)
  ultimately show ?thesis
    by (simp add: concat_frames_def f c)
qed

lemma new_df_row_eq:
  "frame_of_records [new_data today f] COLUMNS =
     \<lparr>columns = COLUMNS,
      rows = [[Str (new_group_name f), Str (p_name f), Str (p_email f), Str (p_contact f),
               Str (s_name f), Str (s_email f), Str (s_contact f),
               Str (t_name f), Str (t_email f), Str (t_contact f),
               Num (fee_year f), Str (strftime today)]]\<rparr>"
  by (simp add: frame_of_records_def new_data_def COLUMNS_def)

lemma wf_new_df_row: "wf_frame (frame_of_records [new_data today f] COLUMNS)"
  by (simp add: new_df_row_eq wf_frame_def) (simp add: COLUMNS_def)

lemma get_column_group:
  "''Group_Association'' \<in> set (columns df) \<Longrightarrow>
   get_column df ''Group_Association'' = Inr (group_names df)"
  by (simp add: get_column_def group_names_def)

lemma add_new_group_tab_fresh:
  assumes "submitted f" and "new_group_name f \<noteq> []"
    and "''Group_Association'' \<in> set (columns (df_orgaco s))"
    and "Str (new_group_name f) \<notin> set (group_names (df_orgaco s))"
  shows "add_new_group_tab wr today f s =
     Inr (case wr of
            None \<Rightarrow>
              s\<lparr>df_orgaco := concat_frames (df_orgaco s) (frame_of_records [new_data today f] COLUMNS),
                sheet := concat_frames (df_orgaco s) (frame_of_records [new_data today f] COLUMNS),
                cache := None,
                events := events s @ [SuccessAdded (new_group_name f), Balloons, Rerun]\<rparr>
          | Some e \<Rightarrow>
              s\<lparr>df_orgaco := concat_frames (df_orgaco s) (frame_of_records [new_data today f] COLUMNS),
                events := events s @ [ErrorWriting, ShowException e]\<rparr>)"
  using assms
  by (cases wr) (simp_all add: add_new_group_tab_def get_column_group write_data_def Let_def)

lemma selected_rows_appended:
  assumes g: "''Group_Association'' \<in> set cols"
    and len: "length r = length cols"
    and r: "cell_of cols r ''Group_Association'' = Str name"
    and fresh: "Str name \<notin> set (group_names \<lparr>columns = cols, rows = rs\<rparr>)"
  shows "selected_rows \<lparr>columns = cols, rows = rs @ [r]\<rparr> name = Inr \<lparr>columns = cols, rows = [r]\<rparr>"
proof -
  from fresh have "filter (\<lambda>(r, g). g = Str name) (zip rs (map (\<lambda>r. cell_of cols r ''Group_Association'') rs)) = []"
    by (force simp: filter_empty_conv group_names_def zip_map2 zip_same_conv_map)
  with g r show ?thesis
    by (simp add: selected_rows_def get_column_def)
qed

text \<open>
  Claim C1, as stated, fails. The session holds one group and equals the worksheet;
  the group Rotary is submitted and the write raises. The error is shown and the worksheet is
  as before, but the session frame keeps the appended row: it holds a record that was
  not persisted, and nothing rolls it back or reloads the frame.
\<close>

theorem insert_write_failure_counterexample:
  "add_new_group_tab (Some (BackendError ''permission denied'')) sample_today rotary_form lions_session =
     Inr \<lparr>df_orgaco = \<lparr>columns = COLUMNS, rows = [lions_row, rotary_row]\<rparr>,
          sheet = \<lparr>columns = COLUMNS, rows = [lions_row]\<rparr>,
          cache = Some lions_frame,
          events = [ErrorWriting, ShowException (BackendError ''permission denied'')]\<rparr> \<and>
   df_orgaco lions_session = \<lparr>columns = COLUMNS, rows = [lions_row]\<rparr> \<and>
   rotary_row \<noteq> lions_row"
  by (simp add: add_new_group_tab_def rotary_form_def lions_session_def lions_frame_def
      get_column_def cell_of_def COLUMNS_def lions_row_def rotary_row_def concat_frames_def
      frame_of_records_def new_data_def write_data_def sample_today_def strftime_def digit_char_def)

text \<open>
  Claim C1, amended. For every insert that passes the checks (submitted, a name that is
  not empty and not yet in the session frame) and whose write raises \<open>e\<close>: the failure
  is reported (the error message and the exception are shown, no success message), the
  worksheet and the cache entry are unchanged, and the session frame is the frame before
  the insert with the new row appended. The handler has no rollback and no reload.
\<close>

theorem insert_write_failure_keeps_row:
  assumes cols: "columns (df_orgaco s) = COLUMNS"
    and wf: "wf_frame (df_orgaco s)"
    and sub: "submitted f"
    and ne: "new_group_name f \<noteq> []"
    and fresh: "Str (new_group_name f) \<notin> set (group_names (df_orgaco s))"
  shows "add_new_group_tab (Some e) today f s =
     Inr (s\<lparr>df_orgaco :=
              \<lparr>columns = COLUMNS,
               rows = rows (df_orgaco s) @
                 [[Str (new_group_name f), Str (p_name f), Str (p_email f), Str (p_contact f),
                   Str (s_name f), Str (s_email f), Str (s_contact f),
                   Str (t_name f), Str (t_email f), Str (t_contact f),
                   Num (fee_year f), Str (strftime today)]]\<rparr>,
            events := events s @ [ErrorWriting, ShowException e]\<rparr>)"
proof -
  have g: "''Group_Association'' \<in> set (columns (df_orgaco s))"
    by (simp add: cols COLUMNS_def)
  have cat: "concat_frames (df_orgaco s) (frame_of_records [new_data today f] COLUMNS) =
      \<lparr>columns = COLUMNS,
       rows = rows (df_orgaco s) @
         [[Str (new_group_name f), Str (p_name f), Str (p_email f), Str (p_contact f),
           Str (s_name f), Str (s_email f), Str (s_contact f),
           Str (t_name f), Str (t_email f), Str (t_contact f),
           Num (fee_year f), Str (strftime today)]]\<rparr>"
    using concat_frames_same_columns [OF wf wf_new_df_row [of today f]]
    by (simp add: cols new_df_row_eq)
  show ?thesis
    using add_new_group_tab_fresh [OF sub ne g fresh, of "Some e" today] by (simp add: cat)
qed

theorem insert_write_failure_keeps_row_witness:
  "columns (df_orgaco lions_session) = COLUMNS \<and>
   wf_frame (df_orgaco lions_session) \<and>
   submitted rotary_form \<and>
   new_group_name rotary_form \<noteq> [] \<and>
   Str (new_group_name rotary_form) \<notin> set (group_names (df_orgaco lions_session)) \<and>
   add_new_group_tab (Some (BackendError ''quota exceeded'')) sample_today rotary_form lions_session =
     Inr (lions_session\<lparr>df_orgaco := \<lparr>columns = COLUMNS, rows = [lions_row, rotary_row]\<rparr>,
                       events := [ErrorWriting, ShowException (BackendError ''quota exceeded'')]\<rparr>)"
proof -
  have h: "columns (df_orgaco lions_session) = COLUMNS"
    "wf_frame (df_orgaco lions_session)"
    "submitted rotary_form"
    "new_group_name rotary_form \<noteq> []"
    "Str (new_group_name rotary_form) \<notin> set (group_names (df_orgaco lions_session))"
    by (simp_all add: lions_session_def lions_frame_def wf_frame_def rotary_form_def
        group_names_def cell_of_def lions_row_def COLUMNS_def)
  from insert_write_failure_keeps_row [OF h, of "BackendError ''quota exceeded''" sample_today] h
  show ?thesis
    by (simp add: lions_session_def lions_frame_def rotary_form_def rotary_row_def
        sample_today_def strftime_def digit_char_def)
qed

text \<open>
  Claim C2, amended to the spreadsheet variant. For every session and every submitted
  form whose (non-empty) group name already occurs in the group column of the session
  frame, the handler shows that the group already exists and changes nothing else: the
  session frame, the worksheet and the cache entry are unchanged, whatever a write
  would have done. (An empty name is turned down before, as a missing name.)
\<close>

theorem insert_duplicate_rejected:
  assumes "submitted f" and "new_group_name f \<noteq> []"
    and "''Group_Association'' \<in> set (columns (df_orgaco s))"
    and "Str (new_group_name f) \<in> set (group_names (df_orgaco s))"
  shows "add_new_group_tab wr today f s =
           Inr (s\<lparr>events := events s @ [ErrorAlreadyExists (new_group_name f)]\<rparr>)"
  using assms by (simp add: add_new_group_tab_def get_column_group)

theorem insert_duplicate_rejected_witness:
  "submitted lions_again_form \<and>
   new_group_name lions_again_form \<noteq> [] \<and>
   ''Group_Association'' \<in> set (columns (df_orgaco lions_session)) \<and>
   Str (new_group_name lions_again_form) \<in> set (group_names (df_orgaco lions_session)) \<and>
   add_new_group_tab None sample_today lions_again_form lions_session =
     Inr \<lparr>df_orgaco = lions_frame, sheet = lions_frame, cache = Some lions_frame,
          events = [ErrorAlreadyExists ''Lions Club'']\<rparr>"
proof -
  have h: "submitted lions_again_form"
    "new_group_name lions_again_form \<noteq> []"
    "''Group_Association'' \<in> set (columns (df_orgaco lions_session))"
    "Str (new_group_name lions_again_form) \<in> set (group_names (df_orgaco lions_session))"
    by (simp_all add: lions_session_def lions_frame_def lions_again_form_def rotary_form_def
        group_names_def cell_of_def lions_row_def COLUMNS_def)
  from insert_duplicate_rejected [OF h, of None sample_today] h
  show ?thesis
    by (simp add: lions_session_def lions_again_form_def rotary_form_def)
qed

text \<open>
  Claim C2, as stated, fails in the relational variant. \<^verbatim>\<open>add_new_group\<close> sends the
  \<^verbatim>\<open>INSERT\<close> without looking at the table: with Rotary in the table and a server that
  executes the statement, Rotary is stored a second time and success is shown.
\<close>

theorem relational_duplicate_counterexample:
  "Str ''Rotary'' \<in> set (group_names (tbl (db rotary_app))) \<and>
   new_group_handler sample_defaults None True ''Rotary'' rotary_app =
     \<lparr>db = \<lparr>tbl = \<lparr>columns = [''id'', ''Group_Association'', ''President_Name''],
                    rows = [[Num 1, Str ''Rotary'', Str ''Raj''], [Num 2, Str ''Rotary'', NaN]]\<rparr>,
            statements = [InsertGroup ''Rotary'']\<rparr>,
      shown = [SuccessAddedGroup ''Rotary'', ExperimentalRerun]\<rparr>"
  by (simp add: new_group_handler_def add_new_group_def insert_group_def rotary_app_def
      rotary_table_def sample_defaults_def strip_def isspace_def group_names_def cell_of_def)

text \<open>
  Claim C7. For every form that satisfies the insert's preconditions (submitted, a name
  that is not empty and not in the session frame, which has the twelve columns), an
  insert whose write succeeds followed by the lookup of the name in the session frame
  returns exactly one row: the submitted fields, unchanged, and the date of the insert
  as \<^verbatim>\<open>Web_Data_Updated\<close>. The worksheet holds the same frame.
\<close>

theorem insert_then_find:
  assumes cols: "columns (df_orgaco s) = COLUMNS"
    and wf: "wf_frame (df_orgaco s)"
    and sub: "submitted f"
    and ne: "new_group_name f \<noteq> []"
    and fresh: "Str (new_group_name f) \<notin> set (group_names (df_orgaco s))"
  shows "\<exists>s'. add_new_group_tab None today f s = Inr s' \<and>
           sheet s' = df_orgaco s' \<and>
           selected_rows (df_orgaco s') (new_group_name f) =
             Inr \<lparr>columns = COLUMNS,
                  rows = [[Str (new_group_name f), Str (p_name f), Str (p_email f), Str (p_contact f),
                           Str (s_name f), Str (s_email f), Str (s_contact f),
                           Str (t_name f), Str (t_email f), Str (t_contact f),
                           Num (fee_year f), Str (strftime today)]]\<rparr>"
proof -
  let ?new = "[Str (new_group_name f), Str (p_name f), Str (p_email f), Str (p_contact f),
               Str (s_name f), Str (s_email f), Str (s_contact f),
               Str (t_name f), Str (t_email f), Str (t_contact f),
               Num (fee_year f), Str (strftime today)]"
  have g: "''Group_Association'' \<in> set COLUMNS"
    by (simp add: COLUMNS_def)
  have cat: "concat_frames (df_orgaco s) (frame_of_records [new_data today f] COLUMNS) =
      \<lparr>columns = COLUMNS, rows = rows (df_orgaco s) @ [?new]\<rparr>"
    using concat_frames_same_columns [OF wf wf_new_df_row [of today f]]
    by (simp add: cols new_df_row_eq)
  have len: "length ?new = length COLUMNS"
    by (simp add: COLUMNS_def)
  have cell: "cell_of COLUMNS ?new ''Group_Association'' = Str (new_group_name f)"
    by (simp add: cell_of_def COLUMNS_def)
  from fresh have fresh': "Str (new_group_name f) \<notin>
      set (group_names \<lparr>columns = COLUMNS, rows = rows (df_orgaco s)\<rparr>)"
    by (simp add: group_names_def cols)
  from g cols have "add_new_group_tab None today f s =
      Inr (s\<lparr>df_orgaco := \<lparr>columns = COLUMNS, rows = rows (df_orgaco s) @ [?new]\<rparr>,
             sheet := \<lparr>columns = COLUMNS, rows = rows (df_orgaco s) @ [?new]\<rparr>,
             cache := None,
             events := events s @ [SuccessAdded (new_group_name f), Balloons, Rerun]\<rparr>)"
    using add_new_group_tab_fresh [OF sub ne _ fresh, of None today] by (simp add: cat)
  then show ?thesis
    by (simp add: selected_rows_appended [OF g len cell fresh'])
qed


theorem insert_then_find_witness:
  "columns (df_orgaco lions_session) = COLUMNS \<and>
   wf_frame (df_orgaco lions_session) \<and>
   submitted rotary_form \<and>
   new_group_name rotary_form \<noteq> [] \<and>
   Str (new_group_name rotary_form) \<notin> set (group_names (df_orgaco lions_session)) \<and>
   (case add_new_group_tab None sample_today rotary_form lions_session of
      Inl e \<Rightarrow> False
    | Inr s' \<Rightarrow>
        sheet s' = df_orgaco s' \<and>
        selected_rows (df_orgaco s') ''Rotary'' = Inr \<lparr>columns = COLUMNS, rows = [rotary_row]\<rparr>)"
proof -
  have h: "columns (df_orgaco lions_session) = COLUMNS"
    "wf_frame (df_orgaco lions_session)"
    "submitted rotary_form"
    "new_group_name rotary_form \<noteq> []"
    "Str (new_group_name rotary_form) \<notin> set (group_names (df_orgaco lions_session))"
    by (simp_all add: lions_session_def lions_frame_def wf_frame_def rotary_form_def
        group_names_def cell_of_def lions_row_def COLUMNS_def)
  from insert_then_find [OF h, of sample_today] h
  show ?thesis
    by (auto simp: rotary_form_def rotary_row_def sample_today_def strftime_def digit_char_def)
qed

section \<open>Tab 1 of the spreadsheet variant\<close>

lemma same_value_Str: "same_value (Str s) y \<longleftrightarrow> y = Str s"
  by (auto simp: same_value_def is_number_def)

lemma unique_strings:
  "\<exists>ys. unique (map Str ss) = map Str ys \<and> set ys = set ss \<and> distinct ys \<and>
        (sorted ss \<longrightarrow> sorted ys)"
proof (induction ss)
  case Nil
  then show ?case by simp
next
  case (Cons s ss)
  then obtain ys where ys: "unique (map Str ss) = map Str ys" "set ys = set ss" "distinct ys"
      "sorted ss \<longrightarrow> sorted ys"
    by blast
  have "filter (\<lambda>y. \<not> same_value (Str s) y) (map Str ys) = map Str (filter (\<lambda>y. y \<noteq> s) ys)"
    by (simp add: same_value_Str filter_map comp_def)
  with ys have "unique (map Str (s # ss)) = map Str (s # filter (\<lambda>y. y \<noteq> s) ys)"
    by simp
  moreover from ys have "set (s # filter (\<lambda>y. y \<noteq> s) ys) = set (s # ss)"
    by auto
  moreover from ys have "distinct (s # filter (\<lambda>y. y \<noteq> s) ys)"
    by simp
  moreover from ys have "sorted (s # ss) \<longrightarrow> sorted (s # filter (\<lambda>y. y \<noteq> s) ys)"
    by (auto intro: sorted_wrt_filter)
  ultimately show ?case by blast
qed

lemma strings_as_cells: "list_all is_str xs \<Longrightarrow> map Str (map str_of xs) = xs"
  by (induction xs) (auto simp: is_str_def str_of_def split: cell.splits)

lemma sort_values_strings:
  assumes "list_all is_str xs"
  shows "sort_values xs = Inr (map Str (sort (map str_of xs)))"
proof -
  from assms have "filter (\<lambda>x. x \<noteq> NaN) xs = xs" "filter (\<lambda>x. x = NaN) xs = []"
    by (auto simp: list_all_iff is_str_def filter_id_conv filter_empty_conv)
  with assms show ?thesis
    by (simp add: sort_values_def)
qed




















text \<open>
  Claim C6, amended to the spreadsheet variant. The list of the select box is computed
  from the session frame alone: it is a function of \<^verbatim>\<open>st.session_state.df_orgaco\<close>, the
  frame that the load and every insert and update leave there, and involves neither the
  worksheet nor the connection. For every session frame whose group names are strings,
  it holds exactly the distinct group names, in ascending order of their code points.
\<close>

theorem group_options_sorted_distinct:
  assumes g: "''Group_Association'' \<in> set (columns (df_orgaco s))"
    and strs: "list_all is_str (group_names (df_orgaco s))"
  shows "\<exists>ys. group_options (df_orgaco s) = Inr (map Str ys) \<and>
           sorted ys \<and> distinct ys \<and> set (map Str ys) = set (group_names (df_orgaco s))"
proof -
  let ?ss = "sort (map str_of (group_names (df_orgaco s)))"
  obtain ys where ys: "unique (map Str ?ss) = map Str ys" "set ys = set ?ss" "distinct ys"
      "sorted ?ss \<longrightarrow> sorted ys"
    using unique_strings [of ?ss] by blast
  from g strs have "group_options (df_orgaco s) = Inr (map Str ys)"
    by (simp add: group_options_def get_column_group sort_values_strings ys)
  moreover from ys have "sorted ys" by simp
  moreover have "set (map Str ys) = set (group_names (df_orgaco s))"
  proof -
    have "set (map Str ys) = set (map Str (map str_of (group_names (df_orgaco s))))"
      using ys by (simp add: image_image)
    with strs show ?thesis
      by (simp only: strings_as_cells)
  qed
  ultimately show ?thesis
    using ys by blast
qed


theorem group_options_sorted_distinct_witness:
  "''Group_Association'' \<in> set (columns (df_orgaco two_groups_session)) \<and>
   list_all is_str (group_names (df_orgaco two_groups_session)) \<and>
   group_names (df_orgaco two_groups_session) = [Str ''Rotary'', Str ''Lions Club''] \<and>
   group_options (df_orgaco two_groups_session) = Inr [Str ''Lions Club'', Str ''Rotary'']"
proof -
  have h: "''Group_Association'' \<in> set (columns (df_orgaco two_groups_session))"
    "list_all is_str (group_names (df_orgaco two_groups_session))"
    by (simp_all add: two_groups_session_def group_names_def cell_of_def COLUMNS_def
        rotary_row_def lions_row_def is_str_def)
  from group_options_sorted_distinct [OF h] h
  show ?thesis
    by (simp add: group_options_def two_groups_session_def get_column_def group_names_def
        cell_of_def COLUMNS_def rotary_row_def lions_row_def sort_values_def is_str_def
        str_of_def same_value_def is_number_def)
qed






section \<open>The relational variant\<close>

lemma split_at_trailing:
  "xs = rev (dropWhile P (rev xs)) @ rev (takeWhile P (rev xs))"
proof -
  have "rev (takeWhile P (rev xs) @ dropWhile P (rev xs)) = xs"
    by (simp only: takeWhile_dropWhile_id rev_rev_ident)
  then show ?thesis
    by (simp only: rev_append)
qed

lemma strip_decomp:
  "\<exists>l r. s = l @ strip s @ r \<and> list_all isspace l \<and> list_all isspace r"
proof -
  let ?m = "dropWhile isspace s"
  have m: "?m = strip s @ rev (takeWhile isspace (rev ?m))"
    unfolding strip_def by (rule split_at_trailing)
  have "s = takeWhile isspace s @ ?m"
    by simp
  with m have "s = takeWhile isspace s @ strip s @ rev (takeWhile isspace (rev ?m))"
    by simp
  moreover have "list_all isspace (takeWhile isspace s)"
    by (auto simp: list_all_iff dest: set_takeWhileD)
  moreover have "list_all isspace (rev (takeWhile isspace (rev ?m)))"
    by (auto simp: list_all_iff dest: set_takeWhileD)
  ultimately show ?thesis by blast
qed

lemma strip_ends:
  assumes "strip s = c # cs"
  shows "\<not> isspace c \<and> \<not> isspace (last (c # cs))"
proof -
  let ?m = "dropWhile isspace s"
  let ?d = "dropWhile isspace (rev ?m)"
  from assms have d: "?d = rev (c # cs)"
    by (metis rev_rev_ident strip_def)
  then have "?d \<noteq> []" by simp
  then have "\<not> isspace (hd ?d)"
    by (rule hd_dropWhile)
  then have last: "\<not> isspace (last (c # cs))"
    unfolding d hd_rev .
  have "?m = strip s @ rev (takeWhile isspace (rev ?m))"
    unfolding strip_def by (rule split_at_trailing)
  with assms have m: "?m = (c # cs) @ rev (takeWhile isspace (rev ?m))"
    by simp
  then have "?m \<noteq> []"
    by (metis append_Cons list.distinct(1))
  then have "\<not> isspace (hd ?m)"
    by (rule hd_dropWhile)
  moreover from m have "hd ?m = c"
    by (metis append_Cons list.sel(1))
  ultimately show ?thesis
    using last by simp
qed

lemma trimmed_strip: "trimmed s (strip s)"
  using strip_decomp [of s] strip_ends [of s]
  by (auto simp: trimmed_def split: list.splits)

text \<open>
  Claim C10. In the relational variant, for every submitted name that is not empty and a
  server that executes the statement, the insert stores one new row whose group name is
  the input with its leading and trailing whitespace removed (the input Rotary with a
  blank on either side is stored as Rotary).
\<close>

theorem new_group_stored_trimmed:
  assumes "new_group_input \<noteq> []"
    and "''Group_Association'' \<in> set (columns (tbl (db a)))"
  shows "\<exists>r. rows (tbl (db (new_group_handler dflt None True new_group_input a))) =
              rows (tbl (db a)) @ [r] \<and>
            cell_of (columns (tbl (db a))) r ''Group_Association'' = Str (strip new_group_input) \<and>
            trimmed new_group_input (strip new_group_input)"
  using assms
  by (simp add: new_group_handler_def add_new_group_def insert_group_def cell_of_map_labels
      trimmed_strip)

theorem new_group_stored_trimmed_witness:
  "'' Rotary '' \<noteq> [] \<and>
   ''Group_Association'' \<in> set (columns (tbl (db lions_app))) \<and>
   rows (tbl (db (new_group_handler sample_defaults None True '' Rotary '' lions_app))) =
     [[Num 1, Str ''Lions Club'', Str ''Ann''], [Num 2, Str ''Rotary'', NaN]] \<and>
   trimmed '' Rotary '' ''Rotary''"
proof -
  have h: "'' Rotary '' \<noteq> []" "''Group_Association'' \<in> set (columns (tbl (db lions_app)))"
    by (simp_all add: lions_app_def)
  have s: "strip '' Rotary '' = ''Rotary''"
    by (simp add: strip_def isspace_def)
  from new_group_stored_trimmed [OF h, of sample_defaults] h s
  show ?thesis
    by (simp add: new_group_handler_def add_new_group_def insert_group_def lions_app_def
        sample_defaults_def)
qed

text \<open>
  Claim C6, as stated, fails in the relational variant, which keeps no dataset:
  \<^verbatim>\<open>fetch_group_associations\<close> sends a query to the server on every call, and
  raises when the connection fails.
\<close>

theorem relational_names_query_counterexample:
  "statements (db rotary_app) = [] \<and>
   fetch_group_associations sample_order None (db rotary_app) =
     Inr (\<lparr>tbl = rotary_table, statements = [SelectDistinctGroups]\<rparr>, [Str ''Rotary'']) \<and>
   fetch_group_associations sample_order (Some (BackendError ''connection refused'')) (db rotary_app) =
     Inl (BackendError ''connection refused'')"
  by (simp add: fetch_group_associations_def rotary_app_def rotary_table_def get_column_def
      cell_of_def sample_order_def str_of_def)


end
